theory Spec2Isabelle
  imports Complex_Main
begin

section \<open>Data model (app/models.py)\<close>

text \<open>
  The pydantic models become records. Python floats are only compared in the code
  modelled here, never computed with, so they are \<^typ>\<open>real\<close>; a \<open>datetime\<close> is an
  opaque point in time, numbered by an integer. Field names shared by several models
  carry a prefix (\<open>sp_\<close> for StockPrice, \<open>pr_\<close> for Prediction).
\<close>

type_synonym datetime = int

record StockPrice =
  sp_symbol :: string
  price :: real
  volume :: int
  sp_timestamp :: datetime
  change_percent :: "real option"

record PriceAlert =
  symbol :: string
  target_price :: real
  condition :: string
  user_id :: string
  is_active :: bool
  created_at :: datetime

record Prediction =
  pr_symbol :: string
  predicted_price :: real
  confidence :: real
  prediction_horizon :: string
  pr_timestamp :: datetime

section \<open>Exceptions\<close>

text \<open>
  What the modelled code can raise: \<open>TypeError\<close> from \<open>json.dumps\<close>, a failed
  \<open>send_text\<close>, a failed Redis \<open>publish\<close>, a failed \<open>websocket.accept\<close>, a URL that
  \<open>redis.from_url\<close> refuses, and a \<open>print\<close> that cannot write its line to standard
  output (an encoding that lacks the emoji of the line, a symbol that cannot be encoded,
  a closed stream).
\<close>

datatype error = TypeError | SendError | RedisError | AcceptError | RedisUrlError | PrintError

section \<open>Alert system (app/alert_system.py)\<close>

text \<open>
  \<open>AlertSystem.alerts\<close> is a Python list of references to PriceAlert objects, and
  \<open>check_alerts\<close> mutates the objects it returns. Objects therefore live in an
  explicit store: a reference is a number, the store maps references to the object's
  current fields, and the list holds references. Two alerts with equal fields are still
  two alerts.
\<close>

type_synonym ref = nat
type_synonym store = "ref \<Rightarrow> PriceAlert"

record AlertSystem =
  alerts :: "ref list"
  running :: bool

definition AlertSystem_init :: AlertSystem where
  "AlertSystem_init = \<lparr>alerts = [], running = False\<rparr>"

text \<open>
  \<open>add_alert\<close> and \<open>remove_alert\<close> change the list and then \<open>print\<close> a line, all inside
  a \<open>try\<close>; the \<open>except\<close> prints a second line and returns \<open>False\<close>. Whether a
  \<open>print\<close> succeeds is decided outside the program: \<open>print_ok\<close> for the line of the
  \<open>try\<close>, \<open>handler_ok\<close> for the line of the \<open>except\<close>. When both fail the exception
  leaves the function. In every case the list has already been changed. The result is
  the new state and either the returned bool or the exception.
\<close>

text \<open>\<open>add_alert\<close>: \<open>self.alerts.append(alert)\<close>, the print, \<open>return True\<close>.\<close>

definition add_alert :: "bool \<Rightarrow> bool \<Rightarrow> AlertSystem \<Rightarrow> ref \<Rightarrow> AlertSystem \<times> (error + bool)" where
  "add_alert print_ok handler_ok s alert =
     (let s1 = s\<lparr>alerts := alerts s @ [alert]\<rparr>
      in if print_ok then (s1, Inr True)
         else if handler_ok then (s1, Inr False)
         else (s1, Inl PrintError))"

text \<open>\<open>remove_alert\<close>: the list comprehension keeps the alerts that do not match both
  fields; after the print the result is \<open>removed_count > 0\<close>, a bool.\<close>

definition remove_alert ::
  "bool \<Rightarrow> bool \<Rightarrow> store \<Rightarrow> AlertSystem \<Rightarrow> string \<Rightarrow> string \<Rightarrow> AlertSystem \<times> (error + bool)" where
  "remove_alert print_ok handler_ok h s symb uid =
     (let initial_count = length (alerts s);
          kept = filter (\<lambda>alert. \<not> (symbol (h alert) = symb \<and> user_id (h alert) = uid)) (alerts s);
          removed_count = int initial_count - int (length kept);
          s1 = s\<lparr>alerts := kept\<rparr>
      in if print_ok then (s1, Inr (removed_count > 0))
         else if handler_ok then (s1, Inr False)
         else (s1, Inl PrintError))"

text \<open>The trigger decision of one loop iteration of \<open>check_alerts\<close>.\<close>

definition should_trigger :: "PriceAlert \<Rightarrow> StockPrice \<Rightarrow> bool" where
  "should_trigger alert stock_data =
     (if condition alert = ''above'' \<and> price stock_data \<ge> target_price alert then True
      else if condition alert = ''below'' \<and> price stock_data \<le> target_price alert then True
      else False)"

text \<open>The loop of \<open>check_alerts\<close> over the copy \<open>self.alerts[:]\<close>: the store and the
  list of triggered alerts are threaded through the iterations.\<close>

fun check_loop :: "StockPrice \<Rightarrow> ref list \<Rightarrow> store \<Rightarrow> ref list \<Rightarrow> ref list \<times> store" where
  "check_loop stock_data [] h triggered_alerts = (triggered_alerts, h)"
| "check_loop stock_data (alert # rest) h triggered_alerts =
     (if \<not> is_active (h alert) \<or> symbol (h alert) \<noteq> sp_symbol stock_data
      then check_loop stock_data rest h triggered_alerts
      else if should_trigger (h alert) stock_data
      then check_loop stock_data rest
             (h(alert := (h alert)\<lparr>is_active := False\<rparr>)) (triggered_alerts @ [alert])
      else check_loop stock_data rest h triggered_alerts)"

definition check_alerts :: "store \<Rightarrow> AlertSystem \<Rightarrow> StockPrice \<Rightarrow> ref list \<times> store" where
  "check_alerts h s stock_data = check_loop stock_data (alerts s) h []"

text \<open>\<open>get_active_alerts\<close>: \<open>if user_id:\<close> is Python truthiness, false for \<open>None\<close> and
  for the empty string.\<close>

definition truthy_str :: "string option \<Rightarrow> bool" where
  "truthy_str u = (case u of None \<Rightarrow> False | Some s \<Rightarrow> s \<noteq> [])"

definition get_active_alerts :: "store \<Rightarrow> AlertSystem \<Rightarrow> string option \<Rightarrow> ref list" where
  "get_active_alerts h s uid =
     (if truthy_str uid
      then filter (\<lambda>alert. is_active (h alert) \<and> Some (user_id (h alert)) = uid) (alerts s)
      else filter (\<lambda>alert. is_active (h alert)) (alerts s))"

section \<open>Python values and \<open>json.dumps\<close>\<close>

text \<open>
  The messages handed to the WebSocket manager are Python dicts. \<open>BaseModel.dict()\<close>
  keeps a \<open>datetime\<close> field as a \<open>datetime\<close> object, and \<open>json.dumps\<close> raises
  \<open>TypeError\<close> on a value that contains one. A dict is an association list in insertion
  order. The text \<open>json.dumps\<close> returns is represented by the value it encodes.
\<close>

datatype pyval =
    PNone
  | PBool bool
  | PInt int
  | PFloat real
  | PStr string
  | PDatetime datetime
  | PList "pyval list"
  | PDict "(string \<times> pyval) list"

fun serializable :: "pyval \<Rightarrow> bool" where
  "serializable (PDatetime t) = False"
| "serializable (PList vs) = (\<forall>v \<in> set vs. serializable v)"
| "serializable (PDict kvs) = (\<forall>v \<in> set (map snd kvs). serializable v)"
| "serializable v = True"

definition json_dumps :: "pyval \<Rightarrow> error + pyval" where
  "json_dumps v = (if serializable v then Inr v else Inl TypeError)"

text \<open>Lookup of a key in a dict, and its keys in order.\<close>

fun dict_get :: "pyval \<Rightarrow> string \<Rightarrow> pyval option" where
  "dict_get (PDict kvs) k = map_of kvs k"
| "dict_get v k = None"

fun dict_keys :: "pyval \<Rightarrow> string list" where
  "dict_keys (PDict kvs) = map fst kvs"
| "dict_keys v = []"

text \<open>\<open>StockPrice.dict()\<close> and \<open>Prediction.dict()\<close>: the fields in declaration order.\<close>

definition StockPrice_dict :: "StockPrice \<Rightarrow> pyval" where
  "StockPrice_dict q = PDict
     [(''symbol'', PStr (sp_symbol q)),
      (''price'', PFloat (price q)),
      (''volume'', PInt (volume q)),
      (''timestamp'', PDatetime (sp_timestamp q)),
      (''change_percent'', (case change_percent q of None \<Rightarrow> PNone | Some c \<Rightarrow> PFloat c))]"

definition Prediction_dict :: "Prediction \<Rightarrow> pyval" where
  "Prediction_dict p = PDict
     [(''symbol'', PStr (pr_symbol p)),
      (''predicted_price'', PFloat (predicted_price p)),
      (''confidence'', PFloat (confidence p)),
      (''prediction_horizon'', PStr (prediction_horizon p)),
      (''timestamp'', PDatetime (pr_timestamp p))]"

text \<open>The three messages the program builds: in \<open>start_data_streaming\<close>
  (data_fetcher.py), in \<open>prediction_scheduler\<close> and in \<open>websocket_endpoint\<close> (main.py).\<close>

definition stock_update_message :: "StockPrice \<Rightarrow> pyval" where
  "stock_update_message result =
     PDict [(''type'', PStr ''stock_update''), (''data'', StockPrice_dict result)]"

definition predictions_message :: "Prediction list \<Rightarrow> pyval" where
  "predictions_message predictions =
     PDict [(''type'', PStr ''predictions''), (''data'', PList (map Prediction_dict predictions))]"

definition echo_message :: "string \<Rightarrow> pyval" where
  "echo_message data =
     PDict [(''type'', PStr ''echo''), (''message'', PStr (''Received: '' @ data))]"

section \<open>Settings (config/settings.py, config/__init__.py)\<close>

text \<open>The values read from the environment are fields of a record; the constants of
  the class are constants here. \<open>max_alerts_per_user\<close> is the entry of
  \<open>DEFAULT_CONFIG["LIMITS"]\<close> in config/__init__.py, which no code reads.\<close>

record Settings =
  REDIS_URL :: string
  ALPHA_VANTAGE_API_KEY :: "string option"
  TELEGRAM_BOT_TOKEN :: "string option"
  TELEGRAM_CHAT_ID :: "string option"

definition STOCK_SYMBOLS :: "string list" where
  "STOCK_SYMBOLS = [''AAPL'', ''GOOGL'', ''MSFT'', ''TSLA'', ''AMZN'']"

definition DATA_UPDATE_INTERVAL :: nat where
  "DATA_UPDATE_INTERVAL = 60"

definition max_alerts_per_user :: nat where
  "max_alerts_per_user = 50"

section \<open>WebSocket manager (app/websocket_manager.py)\<close>

text \<open>
  A WebSocket object is an identity (Starlette compares connections by identity), so
  it is a number. \<open>redis_client\<close> is \<open>None\<close> or the client made from the URL. Whether
  \<open>send_text\<close> on a connection succeeds is decided outside the program: it is the
  parameter \<open>send_ok\<close>. The manager's functions return, next to the new state, the log of
  the sends they attempted, each with its outcome.
\<close>

type_synonym WebSocket = nat

record WebSocketManager =
  active_connections :: "WebSocket list"
  redis_client :: "string option"

definition WebSocketManager_init :: WebSocketManager where
  "WebSocketManager_init = \<lparr>active_connections = [], redis_client = None\<rparr>"

type_synonym send_log = "(WebSocket \<times> (error + pyval)) list"

text \<open>
  \<open>connect\<close>: \<open>await websocket.accept()\<close> may raise, and then nothing is appended.
  After the append, \<open>redis.from_url\<close> is called when there is no client yet; it raises
  on a URL it cannot parse, and then the connection stays registered, no client is
  stored and the exception leaves \<open>connect\<close>. \<open>accept_ok\<close> and \<open>from_url_ok\<close> tell what
  the two calls do. The result is the new state and the exception, if any.
\<close>

definition connect ::
  "Settings \<Rightarrow> bool \<Rightarrow> bool \<Rightarrow> WebSocketManager \<Rightarrow> WebSocket \<Rightarrow> WebSocketManager \<times> error option" where
  "connect cfg accept_ok from_url_ok m websocket =
     (if \<not> accept_ok then (m, Some AcceptError)
      else let m1 = m\<lparr>active_connections := active_connections m @ [websocket]\<rparr>
           in if redis_client m1 = None
              then (if from_url_ok then (m1\<lparr>redis_client := Some (REDIS_URL cfg)\<rparr>, None)
                    else (m1, Some RedisUrlError))
              else (m1, None))"

definition disconnect :: "WebSocketManager \<Rightarrow> WebSocket \<Rightarrow> WebSocketManager" where
  "disconnect m websocket =
     (if websocket \<in> set (active_connections m)
      then m\<lparr>active_connections := remove1 websocket (active_connections m)\<rparr>
      else m)"

text \<open>The body of a \<open>try\<close>: \<open>await connection.send_text(json.dumps(message))\<close>.\<close>

definition send_text_json :: "(WebSocket \<Rightarrow> pyval \<Rightarrow> bool) \<Rightarrow> WebSocket \<Rightarrow> pyval \<Rightarrow> error + pyval" where
  "send_text_json send_ok connection message =
     (case json_dumps message of
        Inl e \<Rightarrow> Inl e
      | Inr text \<Rightarrow> if send_ok connection text then Inr text else Inl SendError)"

definition send_personal_message ::
  "(WebSocket \<Rightarrow> pyval \<Rightarrow> bool) \<Rightarrow> WebSocketManager \<Rightarrow> pyval \<Rightarrow> WebSocket \<Rightarrow> WebSocketManager \<times> send_log" where
  "send_personal_message send_ok m message websocket =
     (case send_text_json send_ok websocket message of
        Inl e \<Rightarrow> (disconnect m websocket, [(websocket, Inl e)])
      | Inr text \<Rightarrow> (m, [(websocket, Inr text)]))"

text \<open>
  The first loop of \<open>broadcast\<close>: a bare \<open>except\<close> puts the connection on the
  \<open>disconnected\<close> list, whatever was raised. The loop runs over the list as it is when
  \<open>broadcast\<close> is entered: this is every run in which no other task changes
  \<open>active_connections\<close> while a \<open>send_text\<close> is awaited. When \<open>json.dumps\<close> raises, nothing
  is awaited (the argument is evaluated before \<open>send_text\<close> is called), so for a message
  that \<open>json.dumps\<close> refuses these are all the runs. A run in which another task connects
  or disconnects during an awaited send is not covered.
\<close>

fun broadcast_loop ::
  "(WebSocket \<Rightarrow> pyval \<Rightarrow> bool) \<Rightarrow> pyval \<Rightarrow> WebSocket list \<Rightarrow> WebSocket list \<Rightarrow> send_log
     \<Rightarrow> WebSocket list \<times> send_log" where
  "broadcast_loop send_ok message [] disconnected sent = (disconnected, sent)"
| "broadcast_loop send_ok message (connection # rest) disconnected sent =
     (case send_text_json send_ok connection message of
        Inl e \<Rightarrow> broadcast_loop send_ok message rest (disconnected @ [connection])
                   (sent @ [(connection, Inl e)])
      | Inr text \<Rightarrow> broadcast_loop send_ok message rest disconnected
                   (sent @ [(connection, Inr text)]))"

text \<open>The second loop: \<open>for conn in disconnected: self.disconnect(conn)\<close>.\<close>

fun disconnect_all :: "WebSocketManager \<Rightarrow> WebSocket list \<Rightarrow> WebSocketManager" where
  "disconnect_all m [] = m"
| "disconnect_all m (conn # rest) = disconnect_all (disconnect m conn) rest"

definition broadcast ::
  "(WebSocket \<Rightarrow> pyval \<Rightarrow> bool) \<Rightarrow> WebSocketManager \<Rightarrow> pyval \<Rightarrow> WebSocketManager \<times> send_log" where
  "broadcast send_ok m message =
     (if active_connections m \<noteq> []
      then (case broadcast_loop send_ok message (active_connections m) [] [] of
              (disconnected, sent) \<Rightarrow> (disconnect_all m disconnected, sent))
      else (m, []))"

text \<open>\<open>publish_to_redis\<close>: \<open>json.dumps\<close> is evaluated before the client is called;
  \<open>redis_ok\<close> tells whether the client's \<open>publish\<close> succeeds. Nothing is caught here.\<close>

definition publish_to_redis ::
  "bool \<Rightarrow> WebSocketManager \<Rightarrow> string \<Rightarrow> pyval \<Rightarrow> error + (string \<times> pyval) list" where
  "publish_to_redis redis_ok m channel message =
     (case redis_client m of
        None \<Rightarrow> Inr []
      | Some client \<Rightarrow>
          (case json_dumps message of
             Inl e \<Rightarrow> Inl e
           | Inr text \<Rightarrow> if redis_ok then Inr [(channel, text)] else Inl RedisError))"

section \<open>Telegram notifications (app/telegram_bot.py, app/alert_system.py)\<close>

text \<open>
  The text of an alert notification is a fixed template filled with five values; the
  model keeps the five values. \<open>upper\<close> is \<open>str.upper\<close> on ASCII letters.
\<close>

record alert_text =
  t_symbol :: string
  t_target_price :: real
  t_current_price :: real
  t_condition :: string
  t_time :: datetime

type_synonym telegram_log = "(string \<times> alert_text) list"

definition upper_char :: "char \<Rightarrow> char" where
  "upper_char c =
     (let n = (of_char c :: nat) in if 97 \<le> n \<and> n \<le> 122 then char_of (n - 32) else c)"

definition upper :: "string \<Rightarrow> string" where
  "upper s = map upper_char s"

text \<open>\<open>TelegramBot.send_message\<close>: without a token there is no bot and nothing is sent;
  \<open>telegram_ok\<close> tells whether the bot's call succeeds for a chat.\<close>

definition send_message ::
  "Settings \<Rightarrow> (string \<Rightarrow> bool) \<Rightarrow> string \<Rightarrow> alert_text \<Rightarrow> telegram_log \<Rightarrow> bool \<times> telegram_log" where
  "send_message cfg telegram_ok chat_id message out =
     (if \<not> truthy_str (TELEGRAM_BOT_TOKEN cfg) then (False, out)
      else if telegram_ok chat_id then (True, out @ [(chat_id, message)])
      else (False, out))"

definition send_alert_notification ::
  "Settings \<Rightarrow> (string \<Rightarrow> bool) \<Rightarrow> datetime \<Rightarrow> PriceAlert \<Rightarrow> real \<Rightarrow> telegram_log \<Rightarrow> telegram_log" where
  "send_alert_notification cfg telegram_ok now alert current_price out =
     (let message = \<lparr>t_symbol = symbol alert, t_target_price = target_price alert,
                     t_current_price = current_price, t_condition = upper (condition alert),
                     t_time = now\<rparr>
      in snd (send_message cfg telegram_ok (user_id alert) message out))"

text \<open>The loop of \<open>process_stock_update\<close> over the triggered alerts; \<open>clock i\<close> is what
  \<open>datetime.now()\<close> returns in iteration \<open>i\<close>.\<close>

fun notify_loop ::
  "Settings \<Rightarrow> (string \<Rightarrow> bool) \<Rightarrow> (nat \<Rightarrow> datetime) \<Rightarrow> store \<Rightarrow> real \<Rightarrow> ref list \<Rightarrow> nat
     \<Rightarrow> telegram_log \<Rightarrow> telegram_log" where
  "notify_loop cfg telegram_ok clock h current_price [] i out = out"
| "notify_loop cfg telegram_ok clock h current_price (alert # rest) i out =
     notify_loop cfg telegram_ok clock h current_price rest (Suc i)
       (send_alert_notification cfg telegram_ok (clock i) (h alert) current_price out)"

section \<open>The program's global objects\<close>

text \<open>
  \<open>manager\<close> and \<open>alert_system\<close> are the module-level instances; the store holds the
  PriceAlert objects; the three logs record what left the process: sends attempted on
  WebSockets, messages published to Redis, notifications delivered to Telegram.
\<close>

record world =
  manager :: WebSocketManager
  alert_system :: AlertSystem
  alert_store :: store
  ws_log :: send_log
  redis_log :: "(string \<times> pyval) list"
  tg_log :: telegram_log

text \<open>What the outside decides during one cycle of the streaming loop.\<close>

record env =
  e_yahoo :: "string \<Rightarrow> StockPrice option"
  e_alpha_vantage :: "string \<Rightarrow> StockPrice option"
  e_send_ok :: "WebSocket \<Rightarrow> pyval \<Rightarrow> bool"
  e_redis_ok :: bool

definition process_stock_update ::
  "Settings \<Rightarrow> (string \<Rightarrow> bool) \<Rightarrow> (nat \<Rightarrow> datetime) \<Rightarrow> world \<Rightarrow> StockPrice \<Rightarrow> world" where
  "process_stock_update cfg telegram_ok clock w stock_data =
     (case check_alerts (alert_store w) (alert_system w) stock_data of
        (triggered_alerts, h') \<Rightarrow>
          w\<lparr>alert_store := h',
            tg_log := notify_loop cfg telegram_ok clock h' (price stock_data)
                        triggered_alerts 0 (tg_log w)\<rparr>)"

section \<open>Data fetcher (app/data_fetcher.py)\<close>

text \<open>
  \<open>fetch_yahoo_data\<close> and the HTTP request of \<open>fetch_alpha_vantage_data\<close> are calls to
  the outside: each is a function from the symbol to the data it returns, \<open>None\<close> when
  it fails. A task that raises is left in \<open>results\<close> as an exception object by
  \<open>asyncio.gather(..., return_exceptions=True)\<close> and fails the \<open>isinstance\<close> test
  as \<open>None\<close> does, so both are \<open>None\<close> here.
\<close>

definition fetch_alpha_vantage_data ::
  "Settings \<Rightarrow> (string \<Rightarrow> StockPrice option) \<Rightarrow> string \<Rightarrow> StockPrice option" where
  "fetch_alpha_vantage_data cfg alpha symb =
     (if \<not> truthy_str (ALPHA_VANTAGE_API_KEY cfg) then None else alpha symb)"

definition fetch_stock_data ::
  "Settings \<Rightarrow> (string \<Rightarrow> StockPrice option) \<Rightarrow> (string \<Rightarrow> StockPrice option) \<Rightarrow> string
     \<Rightarrow> StockPrice option" where
  "fetch_stock_data cfg yahoo alpha symb =
     (let data = yahoo symb;
          data = (if data = None \<and> truthy_str (ALPHA_VANTAGE_API_KEY cfg)
                  then fetch_alpha_vantage_data cfg alpha symb else data)
      in data)"

text \<open>The loop \<open>for result in results\<close> inside the \<open>try\<close>. An exception leaves the loop:
  the result is the world reached so far and the exception.\<close>

fun process_results :: "env \<Rightarrow> StockPrice option list \<Rightarrow> world \<Rightarrow> world \<times> error option" where
  "process_results e [] w = (w, None)"
| "process_results e (None # rest) w = process_results e rest w"
| "process_results e (Some result # rest) w =
     (case broadcast (e_send_ok e) (manager w) (stock_update_message result) of
        (m', sent) \<Rightarrow>
          let w1 = w\<lparr>manager := m', ws_log := ws_log w @ sent\<rparr>
          in (case publish_to_redis (e_redis_ok e) (manager w1) ''stock_updates''
                     (StockPrice_dict result) of
                Inl exc \<Rightarrow> (w1, Some exc)
              | Inr published \<Rightarrow>
                  process_results e rest (w1\<lparr>redis_log := redis_log w1 @ published\<rparr>)))"

text \<open>One iteration of \<open>while self.running\<close>: the \<open>try\<close> body and the \<open>except\<close>. The
  result is the new world, the exception the \<open>except\<close> caught (if any) and the seconds
  slept before the next iteration.\<close>

definition streaming_cycle :: "Settings \<Rightarrow> env \<Rightarrow> world \<Rightarrow> world \<times> error option \<times> nat" where
  "streaming_cycle cfg e w =
     (let results = map (fetch_stock_data cfg (e_yahoo e) (e_alpha_vantage e)) STOCK_SYMBOLS
      in (case process_results e results w of
            (w', None) \<Rightarrow> (w', None, DATA_UPDATE_INTERVAL)
          | (w', Some exc) \<Rightarrow> (w', Some exc, 5)))"

text \<open>The loop itself never ends while \<open>running\<close> is true; its first \<open>n\<close> iterations
  are given by the \<open>n\<close> environments they meet.\<close>

fun start_data_streaming :: "Settings \<Rightarrow> env list \<Rightarrow> world \<Rightarrow> world" where
  "start_data_streaming cfg [] w = w"
| "start_data_streaming cfg (e # es) w = start_data_streaming cfg es (fst (streaming_cycle cfg e w))"

section \<open>The echo of the WebSocket endpoint (app/main.py)\<close>

definition websocket_echo ::
  "(WebSocket \<Rightarrow> pyval \<Rightarrow> bool) \<Rightarrow> WebSocketManager \<Rightarrow> WebSocket \<Rightarrow> string \<Rightarrow> WebSocketManager \<times> send_log" where
  "websocket_echo send_ok m websocket data =
     send_personal_message send_ok m (echo_message data) websocket"

text \<open>The broadcast step of \<open>prediction_scheduler\<close>: \<open>if predictions:\<close> guards it.\<close>

definition broadcast_predictions ::
  "(WebSocket \<Rightarrow> pyval \<Rightarrow> bool) \<Rightarrow> WebSocketManager \<Rightarrow> Prediction list \<Rightarrow> WebSocketManager \<times> send_log" where
  "broadcast_predictions send_ok m predictions =
     (if predictions \<noteq> [] then broadcast send_ok m (predictions_message predictions)
      else (m, []))"

section \<open>Sequences of engine operations\<close>

text \<open>
  The four operations of the alert engine, as a caller can issue them one after the
  other on the shared store. \<open>Add\<close> and \<open>Remove\<close> carry what their two prints do. A step
  returns the list \<open>check_alerts\<close> returned (empty for the other operations); a run
  collects these lists.
\<close>

datatype engine_op =
    Add bool bool ref
  | Remove bool bool string string
  | Evaluate StockPrice
  | ActiveFor "string option"

fun engine_step :: "store \<times> AlertSystem \<Rightarrow> engine_op \<Rightarrow> (store \<times> AlertSystem) \<times> ref list" where
  "engine_step (h, s) (Add print_ok handler_ok alert) =
     ((h, fst (add_alert print_ok handler_ok s alert)), [])"
| "engine_step (h, s) (Remove print_ok handler_ok symb uid) =
     ((h, fst (remove_alert print_ok handler_ok h s symb uid)), [])"
| "engine_step (h, s) (Evaluate stock_data) =
     (case check_alerts h s stock_data of (triggered, h') \<Rightarrow> ((h', s), triggered))"
| "engine_step (h, s) (ActiveFor uid) =
     (case get_active_alerts h s uid of listed \<Rightarrow> ((h, s), []))"

fun engine_run :: "store \<times> AlertSystem \<Rightarrow> engine_op list \<Rightarrow> (store \<times> AlertSystem) \<times> ref list list" where
  "engine_run st [] = (st, [])"
| "engine_run st (x # xs) =
     (case engine_step st x of
        (st', triggered) \<Rightarrow> (case engine_run st' xs of (st'', ts) \<Rightarrow> (st'', triggered # ts)))"

section \<open>Example inputs\<close>

text \<open>The alerts and quotes of the specification's scenarios, used to run the
  definitions on concrete data.\<close>

definition alert_above :: PriceAlert where
  "alert_above = \<lparr>symbol = ''AAPL'', target_price = 150, condition = ''above'',
                   user_id = ''u1'', is_active = True, created_at = 0\<rparr>"

definition alert_below :: PriceAlert where
  "alert_below = \<lparr>symbol = ''AAPL'', target_price = 150, condition = ''below'',
                   user_id = ''u1'', is_active = True, created_at = 0\<rparr>"

definition alert_other :: PriceAlert where
  "alert_other = \<lparr>symbol = ''MSFT'', target_price = 300, condition = ''above'',
                   user_id = ''u2'', is_active = False, created_at = 0\<rparr>"

text \<open>Object 0 is the ABOVE alert, object 1 the BELOW alert, every other object the
  inactive MSFT alert of another owner.\<close>

definition store3 :: store where
  "store3 = (\<lambda>r. alert_other)(0 := alert_above, 1 := alert_below)"

definition system3 :: AlertSystem where
  "system3 = \<lparr>alerts = [0, 1, 2], running = False\<rparr>"

definition quote_AAPL :: "real \<Rightarrow> StockPrice" where
  "quote_AAPL p = \<lparr>sp_symbol = ''AAPL'', price = p, volume = 1000, sp_timestamp = 1,
                    change_percent = None\<rparr>"

definition quote_MSFT :: "real \<Rightarrow> StockPrice" where
  "quote_MSFT p = \<lparr>sp_symbol = ''MSFT'', price = p, volume = 2000, sp_timestamp = 1,
                    change_percent = Some 0\<rparr>"

text \<open>An owner holding \<open>max_alerts_per_user\<close> alerts: fifty objects, all alerts of
  \<open>u1\<close>.\<close>

definition store_full :: store where
  "store_full = (\<lambda>r. alert_above)"

definition system_full :: AlertSystem where
  "system_full = \<lparr>alerts = [0..<50], running = False\<rparr>"

definition settings0 :: Settings where
  "settings0 = \<lparr>REDIS_URL = ''redis://localhost:6379'', ALPHA_VANTAGE_API_KEY = None,
                 TELEGRAM_BOT_TOKEN = Some ''token'', TELEGRAM_CHAT_ID = None\<rparr>"

text \<open>A cycle in which Yahoo returns a quote for AAPL and for MSFT and nothing for the
  other symbols, and every send and publish the outside is asked for succeeds.\<close>

definition env0 :: env where
  "env0 = \<lparr>e_yahoo = (\<lambda>symb. if symb = ''AAPL'' then Some (quote_AAPL 151)
                              else if symb = ''MSFT'' then Some (quote_MSFT 310) else None),
            e_alpha_vantage = (\<lambda>symb. None),
            e_send_ok = (\<lambda>c text. True),
            e_redis_ok = True\<rparr>"

text \<open>The world before any client has connected, holding the three alerts; and the
  world after client 7 has connected.\<close>

definition world0 :: world where
  "world0 = \<lparr>manager = WebSocketManager_init, alert_system = system3, alert_store = store3,
              ws_log = [], redis_log = [], tg_log = []\<rparr>"

definition world1 :: world where
  "world1 = world0\<lparr>manager := \<lparr>active_connections = [7],
                                  redis_client = Some (REDIS_URL settings0)\<rparr>\<rparr>"

text \<open>A manager with three connections, of which connection 2 is dead.\<close>

definition manager3 :: WebSocketManager where
  "manager3 = \<lparr>active_connections = [1, 2, 3], redis_client = None\<rparr>"

text \<open>The manager after clients 1, 2 and 3 have connected.\<close>

definition manager_live :: WebSocketManager where
  "manager_live = \<lparr>active_connections = [1, 2, 3], redis_client = Some (REDIS_URL settings0)\<rparr>"

definition send_ok_not2 :: "WebSocket \<Rightarrow> pyval \<Rightarrow> bool" where
  "send_ok_not2 c text = (c \<noteq> 2)"

section \<open>The alert engine: lemmas\<close>

lemma should_trigger_inactive [simp]:
  "should_trigger (a\<lparr>is_active := b\<rparr>) q = should_trigger a q"
  by (simp add: should_trigger_def)

lemma should_trigger_iff:
  "should_trigger a q \<longleftrightarrow>
     (condition a = ''above'' \<and> price q \<ge> target_price a) \<or>
     (condition a = ''below'' \<and> price q \<le> target_price a)"
  by (simp add: should_trigger_def)

text \<open>The loop returns the alerts it was given plus those of the list that are active,
  carry the quote's symbol and meet their condition; it deactivates exactly these.\<close>

lemma check_loop_fst:
  "set (fst (check_loop q rs h trig)) =
     set trig \<union> {r \<in> set rs. is_active (h r) \<and> symbol (h r) = sp_symbol q \<and> should_trigger (h r) q}"
  by (induction rs arbitrary: h trig) auto

lemma check_loop_snd:
  "snd (check_loop q rs h trig) =
     (\<lambda>r. if r \<in> set rs \<and> is_active (h r) \<and> symbol (h r) = sp_symbol q \<and> should_trigger (h r) q
          then (h r)\<lparr>is_active := False\<rparr> else h r)"
  by (induction rs arbitrary: h trig) (auto simp: fun_eq_iff)

lemma check_alerts_set:
  "set (fst (check_alerts h s q)) =
     {r \<in> set (alerts s). is_active (h r) \<and> symbol (h r) = sp_symbol q \<and> should_trigger (h r) q}"
  by (simp add: check_alerts_def check_loop_fst)

lemma check_alerts_store:
  "snd (check_alerts h s q) r =
     (if r \<in> set (fst (check_alerts h s q)) then (h r)\<lparr>is_active := False\<rparr> else h r)"
  by (simp add: check_alerts_set) (simp add: check_alerts_def check_loop_snd)

lemma length_filter_lt_iff: "length (filter P xs) < length xs \<longleftrightarrow> (\<exists>x \<in> set xs. \<not> P x)"
  by (metis filter_True length_filter_less linorder_neq_iff order_less_irrefl)

section \<open>C2: what \<open>check_alerts\<close> triggers\<close>

text \<open>
  C2. For a quote \<open>q\<close> and an alert of the collection that is active and carries the
  quote's symbol: \<open>check_alerts\<close> returns the alert iff its condition is \<open>above\<close> and
  \<open>q.price >= target_price\<close>, or its condition is \<open>below\<close> and \<open>q.price <= target_price\<close>.
  After the call every returned alert is inactive. When the price equals the target,
  every active alert of that symbol at that target triggers, \<open>above\<close> and \<open>below\<close> alike.
\<close>

theorem check_alerts_triggers:
  assumes "alert \<in> set (alerts s)" and "is_active (h alert)"
    and "symbol (h alert) = sp_symbol q"
  shows "(alert \<in> set (fst (check_alerts h s q)) \<longleftrightarrow>
            (condition (h alert) = ''above'' \<and> price q \<ge> target_price (h alert)) \<or>
            (condition (h alert) = ''below'' \<and> price q \<le> target_price (h alert)))
       \<and> (\<forall>a \<in> set (fst (check_alerts h s q)). \<not> is_active (snd (check_alerts h s q) a))
       \<and> (\<forall>b \<in> set (alerts s).
             is_active (h b) \<and> symbol (h b) = sp_symbol q \<and> target_price (h b) = price q \<and>
             (condition (h b) = ''above'' \<or> condition (h b) = ''below'')
             \<longrightarrow> b \<in> set (fst (check_alerts h s q)))"
proof (intro conjI)
  show "alert \<in> set (fst (check_alerts h s q)) \<longleftrightarrow>
            (condition (h alert) = ''above'' \<and> price q \<ge> target_price (h alert)) \<or>
            (condition (h alert) = ''below'' \<and> price q \<le> target_price (h alert))"
    using assms by (simp add: check_alerts_set should_trigger_iff)
  show "\<forall>a \<in> set (fst (check_alerts h s q)). \<not> is_active (snd (check_alerts h s q) a)"
    by (simp add: check_alerts_store)
  show "\<forall>b \<in> set (alerts s).
             is_active (h b) \<and> symbol (h b) = sp_symbol q \<and> target_price (h b) = price q \<and>
             (condition (h b) = ''above'' \<or> condition (h b) = ''below'')
             \<longrightarrow> b \<in> set (fst (check_alerts h s q))"
    by (auto simp: check_alerts_set should_trigger_iff)
qed

text \<open>The tie of the specification's scenario: a quote at 150 triggers the ABOVE alert
  and the BELOW alert at 150, and both are inactive afterwards.\<close>

theorem check_alerts_triggers_witness:
  "(0::nat) \<in> set (alerts system3) \<and> is_active (store3 0)
     \<and> symbol (store3 0) = sp_symbol (quote_AAPL 150)
     \<and> fst (check_alerts store3 system3 (quote_AAPL 150)) = [0, 1]
     \<and> \<not> is_active (snd (check_alerts store3 system3 (quote_AAPL 150)) 0)
     \<and> \<not> is_active (snd (check_alerts store3 system3 (quote_AAPL 150)) 1)"
  using check_alerts_triggers [of 0 system3 store3 "quote_AAPL 150"]
  by (simp add: check_alerts_def store3_def system3_def quote_AAPL_def alert_above_def
      alert_below_def alert_other_def should_trigger_def)

section \<open>C3: \<open>add_alert\<close> has no capacity limit\<close>

text \<open>
  C3 (as amended). \<open>add_alert\<close> appends the alert at the end of the collection whatever
  the number of alerts its owner already holds, so the owner's count grows by one: no
  per-owner maximum is checked. It returns \<open>True\<close> exactly when its line is printed; it
  returns \<open>False\<close>, or raises, only when a print fails, and the alert has been appended
  then too.
\<close>

theorem add_alert_always_appends:
  "alerts (fst (add_alert print_ok handler_ok s alert)) = alerts s @ [alert]
   \<and> running (fst (add_alert print_ok handler_ok s alert)) = running s
   \<and> length (filter (\<lambda>a. user_id (h a) = uid) (alerts (fst (add_alert print_ok handler_ok s alert))))
       = length (filter (\<lambda>a. user_id (h a) = uid) (alerts s))
         + (if user_id (h alert) = uid then 1 else 0)
   \<and> (snd (add_alert print_ok handler_ok s alert) = Inr True \<longleftrightarrow> print_ok)
   \<and> (snd (add_alert print_ok handler_ok s alert) = Inr False \<longleftrightarrow> \<not> print_ok \<and> handler_ok)
   \<and> (snd (add_alert print_ok handler_ok s alert) = Inl PrintError \<longleftrightarrow> \<not> print_ok \<and> \<not> handler_ok)"
  by (simp add: add_alert_def Let_def)

theorem add_alert_always_appends_witness:
  "add_alert True True system3 5 = (\<lparr>alerts = [0, 1, 2, 5], running = False\<rparr>, Inr True)
   \<and> add_alert False True system3 5 = (\<lparr>alerts = [0, 1, 2, 5], running = False\<rparr>, Inr False)
   \<and> add_alert False False system3 5 = (\<lparr>alerts = [0, 1, 2, 5], running = False\<rparr>, Inl PrintError)"
  using add_alert_always_appends [of True True system3 5 store3 "''u1''"]
    add_alert_always_appends [of False True system3 5 store3 "''u1''"]
    add_alert_always_appends [of False False system3 5 store3 "''u1''"]
  by (simp add: add_alert_def system3_def)

text \<open>The claim as stated fails: owner \<open>u1\<close> holds \<open>max_alerts_per_user\<close> alerts, adds
  one more, is told \<open>True\<close> and then holds 51. When the print fails the answer differs
  and the collection has grown all the same.\<close>

theorem add_alert_capacity_counterexample:
  "length (filter (\<lambda>a. user_id (store_full a) = ''u1'') (alerts system_full)) = max_alerts_per_user
   \<and> user_id (store_full 50) = ''u1''
   \<and> snd (add_alert True True system_full 50) = Inr True
   \<and> alerts (fst (add_alert True True system_full 50)) \<noteq> alerts system_full
   \<and> length (filter (\<lambda>a. user_id (store_full a) = ''u1'')
        (alerts (fst (add_alert True True system_full 50)))) = 51
   \<and> alerts (fst (add_alert False True system_full 50)) \<noteq> alerts system_full"
  by (simp add: add_alert_def system_full_def store_full_def alert_above_def max_alerts_per_user_def)

section \<open>C4: \<open>remove_alert\<close>\<close>

text \<open>
  C4 (as amended). \<open>remove_alert symbol user_id\<close> keeps, in order, exactly the alerts
  that do not match both fields and deletes the others, whatever their active flag (the
  flag is not read). It returns a bool, not a count: when its line is printed, \<open>True\<close>
  iff at least one alert was deleted; it never returns \<open>True\<close> when none was deleted.
\<close>

theorem remove_alert_deletes_matching:
  "alerts (fst (remove_alert print_ok handler_ok h s symb uid))
     = filter (\<lambda>a. \<not> (symbol (h a) = symb \<and> user_id (h a) = uid)) (alerts s)
   \<and> (\<forall>a. a \<in> set (alerts (fst (remove_alert print_ok handler_ok h s symb uid))) \<longleftrightarrow>
            a \<in> set (alerts s) \<and> \<not> (symbol (h a) = symb \<and> user_id (h a) = uid))
   \<and> running (fst (remove_alert print_ok handler_ok h s symb uid)) = running s
   \<and> (print_ok \<longrightarrow>
        snd (remove_alert print_ok handler_ok h s symb uid)
          = Inr (\<exists>a \<in> set (alerts s). symbol (h a) = symb \<and> user_id (h a) = uid))
   \<and> (snd (remove_alert print_ok handler_ok h s symb uid) = Inr True \<longrightarrow>
        (\<exists>a \<in> set (alerts s). symbol (h a) = symb \<and> user_id (h a) = uid))"
proof -
  let ?P = "\<lambda>a. \<not> (symbol (h a) = symb \<and> user_id (h a) = uid)"
  have c: "length (filter ?P (alerts s)) < length (alerts s)
             \<longleftrightarrow> (\<exists>a \<in> set (alerts s). symbol (h a) = symb \<and> user_id (h a) = uid)"
    by (simp add: length_filter_lt_iff)
  have r: "print_ok \<Longrightarrow> snd (remove_alert print_ok handler_ok h s symb uid)
             = Inr (length (filter ?P (alerts s)) < length (alerts s))"
    by (simp add: remove_alert_def Let_def)
  have t: "snd (remove_alert print_ok handler_ok h s symb uid) = Inr True \<Longrightarrow> print_ok"
    by (simp add: remove_alert_def Let_def split: if_splits)
  show ?thesis
    using c r t by (auto simp: remove_alert_def Let_def)
qed

theorem remove_alert_deletes_matching_witness:
  "remove_alert True True store3 system3 ''AAPL'' ''u1''
     = (\<lparr>alerts = [2], running = False\<rparr>, Inr True)
   \<and> remove_alert True True store3 system3 ''TSLA'' ''u1''
     = (\<lparr>alerts = [0, 1, 2], running = False\<rparr>, Inr False)
   \<and> remove_alert False True store3 system3 ''AAPL'' ''u1''
     = (\<lparr>alerts = [2], running = False\<rparr>, Inr False)"
  using remove_alert_deletes_matching [of True True store3 system3 "''AAPL''" "''u1''"]
    remove_alert_deletes_matching [of True True store3 system3 "''TSLA''" "''u1''"]
    remove_alert_deletes_matching [of False True store3 system3 "''AAPL''" "''u1''"]
  by (simp add: remove_alert_def store3_def system3_def alert_above_def alert_below_def
      alert_other_def)

text \<open>The claim as stated fails on the return value: two alerts are deleted and the
  call returns \<open>True\<close>, which as a number is 1.\<close>

theorem remove_alert_count_counterexample:
  "int (length (alerts system3))
     - int (length (alerts (fst (remove_alert True True store3 system3 ''AAPL'' ''u1'')))) = 2
   \<and> snd (remove_alert True True store3 system3 ''AAPL'' ''u1'') = Inr True
   \<and> map_sum id of_bool (snd (remove_alert True True store3 system3 ''AAPL'' ''u1''))
       \<noteq> (Inr 2 :: error + int)"
  by (simp add: remove_alert_def store3_def system3_def alert_above_def alert_below_def alert_other_def)

section \<open>C6: an inactive alert stays inactive\<close>

lemma engine_step_inactive:
  assumes "\<not> is_active (h r)" and "engine_step (h, s) x = ((h', s'), t)"
  shows "\<not> is_active (h' r) \<and> r \<notin> set t"
proof (cases x)
  case (Evaluate q)
  with assms(2) have t: "t = fst (check_alerts h s q)" and h': "h' = snd (check_alerts h s q)"
    by (auto split: prod.splits)
  from assms(1) have "r \<notin> set t" by (simp add: t check_alerts_set)
  moreover from assms(1) have "\<not> is_active (h' r)" by (simp add: h' check_alerts_store)
  ultimately show ?thesis by simp
qed (use assms in auto)

text \<open>
  C6. Once the active flag of an alert object is false, it is false after any sequence
  of \<open>add_alert\<close>, \<open>remove_alert\<close>, \<open>check_alerts\<close> and \<open>get_active_alerts\<close> calls, and
  none of the \<open>check_alerts\<close> calls of the sequence, whatever the quote, returns the alert.
\<close>

theorem inactive_stays_inactive:
  assumes "\<not> is_active (h r)"
  shows "\<not> is_active (fst (fst (engine_run (h, s) ops)) r)
       \<and> (\<forall>t \<in> set (snd (engine_run (h, s) ops)). r \<notin> set t)"
  using assms
proof (induction ops arbitrary: h s)
  case Nil
  then show ?case by simp
next
  case (Cons x xs)
  obtain h' s' t where st: "engine_step (h, s) x = ((h', s'), t)"
    by (metis prod.exhaust)
  from engine_step_inactive [OF Cons.prems st] have a: "\<not> is_active (h' r)" and b: "r \<notin> set t"
    by simp_all
  from a have "\<not> is_active (fst (fst (engine_run (h', s') xs)) r)
       \<and> (\<forall>t \<in> set (snd (engine_run (h', s') xs)). r \<notin> set t)"
    by (rule Cons.IH)
  then show ?case
    using b by (auto simp: st split: prod.splits)
qed

text \<open>Object 2 is an inactive ABOVE alert for MSFT at 300; quotes for MSFT at 310 and
  320 do not return it, and it is inactive at the end.\<close>

theorem inactive_stays_inactive_witness:
  "\<not> is_active (store3 2)
   \<and> \<not> is_active (fst (fst (engine_run (store3, system3)
         [Evaluate (quote_MSFT 310), Add True True 2, ActiveFor None,
          Remove False True ''AAPL'' ''u1'', Evaluate (quote_MSFT 320)])) 2)
   \<and> snd (engine_run (store3, system3)
         [Evaluate (quote_MSFT 310), Add True True 2, ActiveFor None,
          Remove False True ''AAPL'' ''u1'', Evaluate (quote_MSFT 320)])
       = [[], [], [], [], []]"
  using inactive_stays_inactive [of store3 2 system3
      "[Evaluate (quote_MSFT 310), Add True True 2, ActiveFor None,
          Remove False True ''AAPL'' ''u1'', Evaluate (quote_MSFT 320)]"]
  by (simp add: check_alerts_def add_alert_def remove_alert_def get_active_alerts_def
      store3_def system3_def quote_MSFT_def alert_above_def alert_below_def alert_other_def should_trigger_def)

section \<open>C10: \<open>get_active_alerts\<close> with the empty owner id\<close>

text \<open>
  C10. Called with the empty string as owner id, \<open>get_active_alerts\<close> returns the active
  alerts of every owner, as it does when called without an owner id: the owner filter
  is not applied.
\<close>

theorem get_active_alerts_empty_owner:
  "get_active_alerts h s (Some '''') = filter (\<lambda>a. is_active (h a)) (alerts s)
   \<and> get_active_alerts h s (Some '''') = get_active_alerts h s None"
  by (simp add: get_active_alerts_def truthy_str_def)

text \<open>With the alerts of \<open>u1\<close> in the collection, the empty owner id lists them, though
  no active alert has the empty owner id; a non-empty owner id is filtered on.\<close>

theorem get_active_alerts_empty_owner_witness:
  "get_active_alerts store3 system3 (Some '''') = [0, 1]
   \<and> filter (\<lambda>a. is_active (store3 a) \<and> user_id (store3 a) = '''') (alerts system3) = []
   \<and> get_active_alerts store3 system3 (Some ''u2'') = []"
  using get_active_alerts_empty_owner [of store3 system3]
  by (simp add: get_active_alerts_def truthy_str_def store3_def system3_def alert_above_def
      alert_below_def alert_other_def)

section \<open>The WebSocket manager: lemmas\<close>

lemma disconnect_conns:
  "active_connections (disconnect m c) = remove1 c (active_connections m)"
  by (simp add: disconnect_def remove1_idem)

lemma disconnect_redis: "redis_client (disconnect m c) = redis_client m"
  by (simp add: disconnect_def)

lemma disconnect_all_redis: "redis_client (disconnect_all m ds) = redis_client m"
  by (induction ds arbitrary: m) (simp_all add: disconnect_redis)

text \<open>The first loop tries every connection once, in order, and collects the failures.\<close>

lemma broadcast_loop_eq:
  "broadcast_loop ok msg cs d l =
     (d @ filter (\<lambda>c. isl (send_text_json ok c msg)) cs,
      l @ map (\<lambda>c. (c, send_text_json ok c msg)) cs)"
  by (induction cs arbitrary: d l) (auto split: sum.splits)

text \<open>The second loop removes the dead connections of \<open>xs\<close> one by one; \<open>ys\<close> is the
  part of the list already passed, where every connection is alive.\<close>

lemma disconnect_all_filter:
  assumes "active_connections m = ys @ xs" and "\<forall>y \<in> set ys. \<not> dead y"
  shows "active_connections (disconnect_all m (filter dead xs)) = ys @ filter (\<lambda>c. \<not> dead c) xs"
  using assms
proof (induction xs arbitrary: m ys)
  case Nil
  then show ?case by simp
next
  case (Cons x xs)
  show ?case
  proof (cases "dead x")
    case True
    with Cons.prems have "x \<notin> set ys" by auto
    then have "active_connections (disconnect m x) = ys @ xs"
      using Cons.prems(1) by (simp add: disconnect_conns remove1_append)
    from Cons.IH [OF this Cons.prems(2)] True show ?thesis by simp
  next
    case False
    have a: "active_connections m = (ys @ [x]) @ xs" using Cons.prems(1) by simp
    have b: "\<forall>y \<in> set (ys @ [x]). \<not> dead y" using Cons.prems(2) False by simp
    from Cons.IH [OF a b] False show ?thesis by simp
  qed
qed

lemma broadcast_conns:
  "active_connections (fst (broadcast ok m msg)) =
     filter (\<lambda>c. \<not> isl (send_text_json ok c msg)) (active_connections m)"
proof (cases "active_connections m = []")
  case True
  then show ?thesis by (simp add: broadcast_def)
next
  case False
  have "active_connections (disconnect_all m
          (filter (\<lambda>c. isl (send_text_json ok c msg)) (active_connections m)))
        = [] @ filter (\<lambda>c. \<not> isl (send_text_json ok c msg)) (active_connections m)"
    by (rule disconnect_all_filter) simp_all
  with False show ?thesis by (simp add: broadcast_def broadcast_loop_eq)
qed

lemma broadcast_redis: "redis_client (fst (broadcast ok m msg)) = redis_client m"
  by (simp add: broadcast_def broadcast_loop_eq disconnect_all_redis)

lemma broadcast_sent:
  "snd (broadcast ok m msg) = map (\<lambda>c. (c, send_text_json ok c msg)) (active_connections m)"
  by (cases "active_connections m = []") (simp_all add: broadcast_def broadcast_loop_eq)

text \<open>A new connection that connects and then disconnects leaves the list as it was.\<close>

lemma connect_disconnect_fresh:
  assumes "h \<notin> set (active_connections m)"
  shows "active_connections (disconnect (fst (connect cfg accept_ok from_url_ok m h)) h)
           = active_connections m"
  using assms
  by (auto simp: connect_def disconnect_conns Let_def remove1_append remove1_idem)

text \<open>A connection enters the list once: \<open>connect\<close> is called with a new WebSocket (a
  second \<open>accept\<close> on the same one raises), and the other operations keep the list free
  of duplicates.\<close>

lemma connect_distinct:
  "distinct (active_connections m) \<Longrightarrow> c \<notin> set (active_connections m) \<Longrightarrow>
   distinct (active_connections (fst (connect cfg accept_ok from_url_ok m c)))"
  by (auto simp: connect_def Let_def)

lemma disconnect_distinct:
  "distinct (active_connections m) \<Longrightarrow> distinct (active_connections (disconnect m c))"
  by (simp add: disconnect_conns)

lemma broadcast_distinct:
  "distinct (active_connections m) \<Longrightarrow> distinct (active_connections (fst (broadcast ok m msg)))"
  by (simp add: broadcast_conns)

section \<open>C9: \<open>disconnect\<close> is idempotent\<close>

text \<open>
  C9. \<open>disconnect\<close> of a connection that is not in the list leaves the manager as it is.
  On a list without duplicates (every list the program builds), \<open>disconnect h\<close> removes
  \<open>h\<close> from the list, so a second \<open>disconnect h\<close> changes nothing: twice is the same as
  once.
\<close>

theorem disconnect_idempotent:
  "(h \<notin> set (active_connections m) \<longrightarrow> disconnect m h = m)
   \<and> (distinct (active_connections m) \<longrightarrow>
        h \<notin> set (active_connections (disconnect m h))
        \<and> disconnect (disconnect m h) h = disconnect m h)"
  by (simp add: disconnect_def)

theorem disconnect_idempotent_witness:
  "distinct (active_connections manager3)
   \<and> disconnect manager3 2 = \<lparr>active_connections = [1, 3], redis_client = None\<rparr>
   \<and> disconnect (disconnect manager3 2) 2 = disconnect manager3 2
   \<and> 9 \<notin> set (active_connections manager3) \<and> disconnect manager3 9 = manager3"
  using disconnect_idempotent [of 2 manager3] disconnect_idempotent [of 9 manager3]
  by (simp add: disconnect_def manager3_def)

section \<open>C5: the messages\<close>

text \<open>
  C5 (as amended). The message handed to \<open>broadcast\<close> for a quote is
  \<open>{"type": "stock_update", "data": payload}\<close>, the payload having the keys symbol, price,
  volume, timestamp and change_percent, the last \<open>None\<close> when the quote has none. The
  message for predictions is \<open>{"type": "predictions", "data": [payload, ...]}\<close>. The echo
  is \<open>{"type": "echo", "message": text}\<close> and is sent to the one connection that wrote,
  not broadcast.
\<close>

theorem message_shapes:
  "dict_keys (stock_update_message q) = [''type'', ''data'']
   \<and> dict_get (stock_update_message q) ''type'' = Some (PStr ''stock_update'')
   \<and> dict_get (stock_update_message q) ''data'' = Some (StockPrice_dict q)
   \<and> dict_keys (StockPrice_dict q) = [''symbol'', ''price'', ''volume'', ''timestamp'', ''change_percent'']
   \<and> dict_get (StockPrice_dict q) ''change_percent''
        = Some (case change_percent q of None \<Rightarrow> PNone | Some c \<Rightarrow> PFloat c)
   \<and> dict_keys (predictions_message ps) = [''type'', ''data'']
   \<and> dict_get (predictions_message ps) ''type'' = Some (PStr ''predictions'')
   \<and> dict_get (predictions_message ps) ''data'' = Some (PList (map Prediction_dict ps))
   \<and> dict_keys (echo_message t) = [''type'', ''message'']
   \<and> dict_get (echo_message t) ''type'' = Some (PStr ''echo'')
   \<and> map fst (snd (websocket_echo ok m ws t)) = [ws]"
  by (simp add: stock_update_message_def StockPrice_dict_def predictions_message_def
      echo_message_def websocket_echo_def send_personal_message_def split: sum.splits)

theorem message_shapes_witness:
  "dict_get (stock_update_message (quote_AAPL 151)) ''data''
     = Some (PDict [(''symbol'', PStr ''AAPL''), (''price'', PFloat 151), (''volume'', PInt 1000),
                    (''timestamp'', PDatetime 1), (''change_percent'', PNone)])
   \<and> dict_get (StockPrice_dict (quote_MSFT 310)) ''change_percent'' = Some (PFloat 0)
   \<and> dict_keys (echo_message ''hi'') = [''type'', ''message'']"
  using message_shapes [of "quote_AAPL 151" "[]" "''hi''" "\<lambda>c t. True" manager3 1]
    message_shapes [of "quote_MSFT 310" "[]" "''hi''" "\<lambda>c t. True" manager3 1]
  by (simp add: StockPrice_dict_def quote_AAPL_def quote_MSFT_def)

text \<open>The claim as stated fails: the type of a quote message is \<open>stock_update\<close>, not one
  of the three names of the claim, and the echo has no \<open>data\<close> key.\<close>

theorem quote_update_type_counterexample:
  "dict_get (stock_update_message (quote_AAPL 151)) ''type'' = Some (PStr ''stock_update'')
   \<and> PStr ''stock_update'' \<notin> {PStr ''quote_update'', PStr ''predictions'', PStr ''echo''}
   \<and> dict_get (echo_message ''hi'') ''data'' = None"
  by (simp add: stock_update_message_def echo_message_def)

section \<open>The streaming cycle: lemmas\<close>

text \<open>The dict of a quote holds a \<open>datetime\<close>, so \<open>json.dumps\<close> raises on it and on the
  message that contains it.\<close>

lemma StockPrice_dict_not_serializable: "json_dumps (StockPrice_dict q) = Inl TypeError"
  by (simp add: json_dumps_def StockPrice_dict_def)

lemma stock_update_not_serializable: "json_dumps (stock_update_message q) = Inl TypeError"
  by (simp add: json_dumps_def stock_update_message_def StockPrice_dict_def)

text \<open>The cycle touches neither the alert system, nor the alert objects, nor Telegram.\<close>

lemma process_results_alerts:
  "alert_store (fst (process_results e rs w)) = alert_store w
   \<and> alert_system (fst (process_results e rs w)) = alert_system w
   \<and> tg_log (fst (process_results e rs w)) = tg_log w"
  by (induction e rs w rule: process_results.induct)
     (auto simp: Let_def split: prod.splits sum.splits)

lemma streaming_cycle_alerts:
  "alert_store (fst (streaming_cycle cfg e w)) = alert_store w
   \<and> alert_system (fst (streaming_cycle cfg e w)) = alert_system w
   \<and> tg_log (fst (streaming_cycle cfg e w)) = tg_log w"
proof -
  let ?rs = "map (fetch_stock_data cfg (e_yahoo e) (e_alpha_vantage e)) STOCK_SYMBOLS"
  have "fst (streaming_cycle cfg e w) = fst (process_results e ?rs w)"
    by (simp add: streaming_cycle_def Let_def split: prod.splits option.splits)
  then show ?thesis by (simp add: process_results_alerts)
qed

text \<open>Failed fetches are skipped: the cycle does what it would do on the successful
  fetches alone.\<close>

lemma process_results_skips_failures:
  "process_results e rs w = process_results e (filter (\<lambda>r. r \<noteq> None) rs) w"
  by (induction e rs w rule: process_results.induct)
     (auto simp: Let_def split: prod.splits sum.splits)

text \<open>While no client has ever connected there is no Redis client, and the loop over
  the results runs to its end.\<close>

lemma process_results_no_redis:
  "redis_client (manager w) = None \<Longrightarrow>
     snd (process_results e rs w) = None
     \<and> redis_client (manager (fst (process_results e rs w))) = None"
proof (induction e rs w rule: process_results.induct)
  case (3 e result rest w)
  obtain m' sent where b: "broadcast (e_send_ok e) (manager w) (stock_update_message result) = (m', sent)"
    by (metis prod.exhaust)
  have r: "redis_client m' = None"
    using broadcast_redis [of "e_send_ok e" "manager w" "stock_update_message result"] b "3.prems"
    by simp
  let ?w1 = "w\<lparr>manager := m', ws_log := ws_log w @ sent\<rparr>"
  have p: "publish_to_redis (e_redis_ok e) (manager ?w1) ''stock_updates'' (StockPrice_dict result) = Inr []"
    using r by (simp add: publish_to_redis_def)
  have "redis_client (manager (?w1\<lparr>redis_log := redis_log ?w1 @ []\<rparr>)) = None"
    using r by simp
  from "3.IH" [OF b [symmetric] refl p this] show ?case
    using b p by (simp add: Let_def)
qed simp_all

text \<open>Once a Redis client exists, the first successful fetch of a cycle ends the loop
  over the results with the \<open>TypeError\<close> of \<open>publish_to_redis\<close>.\<close>

lemma process_results_redis_aborts:
  "redis_client (manager w) \<noteq> None \<Longrightarrow> Some q \<in> set rs \<Longrightarrow>
     snd (process_results e rs w) = Some TypeError"
proof (induction e rs w rule: process_results.induct)
  case (3 e result rest w)
  obtain m' sent where b: "broadcast (e_send_ok e) (manager w) (stock_update_message result) = (m', sent)"
    by (metis prod.exhaust)
  have r: "redis_client m' \<noteq> None"
    using broadcast_redis [of "e_send_ok e" "manager w" "stock_update_message result"] b "3.prems"
    by simp
  then have "publish_to_redis (e_redis_ok e) m' ''stock_updates'' (StockPrice_dict result) = Inl TypeError"
    by (auto simp: publish_to_redis_def StockPrice_dict_not_serializable split: option.splits)
  then show ?case using b by (simp add: Let_def)
qed simp_all

lemma upper_above: "upper ''above'' = ''ABOVE''"
  by code_simp

lemma fetch_env0:
  "map (fetch_stock_data settings0 (e_yahoo env0) (e_alpha_vantage env0)) STOCK_SYMBOLS
     = [Some (quote_AAPL 151), None, Some (quote_MSFT 310), None, None]"
  by (simp add: fetch_stock_data_def fetch_alpha_vantage_data_def settings0_def env0_def
      STOCK_SYMBOLS_def truthy_str_def)

section \<open>C1: the cycle does not evaluate alerts\<close>

text \<open>
  C1 (the code at a failing input). No client is connected; the collection holds an
  active ABOVE alert of \<open>u1\<close> for AAPL at 150, and the cycle fetches AAPL at 151, which
  \<open>check_alerts\<close> would answer with that alert. The cycle completes and leaves the world
  as it was: the alert is still active and no notification was sent.
  \<open>process_stock_update\<close>, which the cycle does not call, would have sent \<open>u1\<close> the
  notification with symbol, target, price, condition and time.
\<close>

theorem cycle_never_evaluates_alerts:
  "fetch_stock_data settings0 (e_yahoo env0) (e_alpha_vantage env0) ''AAPL'' = Some (quote_AAPL 151)
   \<and> 0 \<in> set (alerts (alert_system world0))
   \<and> fst (check_alerts (alert_store world0) (alert_system world0) (quote_AAPL 151)) = [0]
   \<and> streaming_cycle settings0 env0 world0 = (world0, None, 60)
   \<and> is_active (alert_store (fst (streaming_cycle settings0 env0 world0)) 0)
   \<and> tg_log (fst (streaming_cycle settings0 env0 world0)) = []
   \<and> tg_log (process_stock_update settings0 (\<lambda>chat. True) (\<lambda>i. 5) world0 (quote_AAPL 151))
       = [(''u1'', \<lparr>t_symbol = ''AAPL'', t_target_price = 150, t_current_price = 151,
                    t_condition = ''ABOVE'', t_time = 5\<rparr>)]"
proof -
  have c: "streaming_cycle settings0 env0 world0 = (world0, None, 60)"
    by (simp add: streaming_cycle_def fetch_env0 Let_def world0_def WebSocketManager_init_def
        broadcast_def publish_to_redis_def DATA_UPDATE_INTERVAL_def)
  have k: "check_alerts (alert_store world0) (alert_system world0) (quote_AAPL 151)
             = ([0], store3(0 := alert_above\<lparr>is_active := False\<rparr>))"
    by (simp add: check_alerts_def world0_def store3_def system3_def quote_AAPL_def
        alert_above_def alert_below_def alert_other_def should_trigger_def)
  have f: "fetch_stock_data settings0 (e_yahoo env0) (e_alpha_vantage env0) ''AAPL'' = Some (quote_AAPL 151)"
    by (simp add: fetch_stock_data_def env0_def)
  have p: "tg_log (process_stock_update settings0 (\<lambda>chat. True) (\<lambda>i. 5) world0 (quote_AAPL 151))
       = [(''u1'', \<lparr>t_symbol = ''AAPL'', t_target_price = 150, t_current_price = 151,
                    t_condition = ''ABOVE'', t_time = 5\<rparr>)]"
    by (simp add: process_stock_update_def k)
       (simp add: world0_def send_alert_notification_def send_message_def settings0_def
         truthy_str_def alert_above_def upper_above quote_AAPL_def)
  show ?thesis
    using c k f p by (simp add: world0_def store3_def system3_def alert_above_def)
qed

section \<open>C8: a cycle after a client has connected\<close>

text \<open>
  C8 (the code at a failing input). Client 7 has connected, which created the Redis
  client. In the cycle the fetches of AAPL and MSFT succeed and the others fail. The
  broadcast for AAPL fails on its one connection with \<open>TypeError\<close> and removes it; then
  \<open>publish_to_redis\<close> raises \<open>TypeError\<close>, which ends the \<open>try\<close> body: the \<open>except\<close> branch
  sleeps 5 seconds, and nothing was attempted for MSFT.
\<close>

theorem cycle_aborts_after_first_quote:
  "connect settings0 True True WebSocketManager_init 7 = (manager world1, None)
   \<and> map (fetch_stock_data settings0 (e_yahoo env0) (e_alpha_vantage env0)) STOCK_SYMBOLS
     = [Some (quote_AAPL 151), None, Some (quote_MSFT 310), None, None]
   \<and> streaming_cycle settings0 env0 world1
     = (world1\<lparr>manager := \<lparr>active_connections = [], redis_client = Some (REDIS_URL settings0)\<rparr>,
               ws_log := [(7, Inl TypeError)]\<rparr>,
        Some TypeError, 5)"
  by (simp add: streaming_cycle_def fetch_env0 Let_def world1_def world0_def
      broadcast_def send_text_json_def stock_update_not_serializable disconnect_def
      publish_to_redis_def StockPrice_dict_not_serializable connect_def
      WebSocketManager_init_def)

section \<open>C7: \<open>broadcast\<close> of the messages the program builds\<close>

text \<open>The message for a non-empty list of predictions holds a \<open>datetime\<close> too.\<close>

lemma predictions_not_serializable:
  "ps \<noteq> [] \<Longrightarrow> json_dumps (predictions_message ps) = Inl TypeError"
  by (cases ps) (simp_all add: json_dumps_def predictions_message_def Prediction_dict_def)

text \<open>When \<open>json.dumps\<close> refuses the message, every \<open>try\<close> of the first loop ends in
  \<open>TypeError\<close> before \<open>send_text\<close> is called, and the second loop unregisters every
  connection.\<close>

lemma broadcast_unserializable:
  assumes "json_dumps msg = Inl TypeError"
  shows "active_connections (fst (broadcast ok m msg)) = []
       \<and> redis_client (fst (broadcast ok m msg)) = redis_client m
       \<and> snd (broadcast ok m msg) = map (\<lambda>c. (c, Inl TypeError)) (active_connections m)"
proof -
  have "\<And>c. send_text_json ok c msg = Inl TypeError"
    using assms by (simp add: send_text_json_def)
  then show ?thesis
    by (simp add: broadcast_conns broadcast_redis broadcast_sent)
qed

lemma broadcast_quote_unregisters_all:
  "active_connections (fst (broadcast ok m (stock_update_message q))) = []"
  using broadcast_unserializable [OF stock_update_not_serializable] by blast

lemma broadcast_predictions_unregisters_all:
  "active_connections (fst (broadcast_predictions ok m ps)) = []
     \<or> (ps = [] \<and> fst (broadcast_predictions ok m ps) = m)"
  using broadcast_unserializable [OF predictions_not_serializable]
  by (cases "ps = []") (simp_all add: broadcast_predictions_def)

text \<open>
  C7 (the code at a failing input). Clients 1, 2 and 3 have connected; a send to 2
  would fail, sends to 1 and 3 would succeed. \<open>broadcast\<close> is called with the message the
  streaming cycle builds for a quote. In each of the three \<open>try\<close> blocks \<open>json.dumps\<close>
  raises \<open>TypeError\<close>, so nothing is sent to anybody, and all three connections are
  unregistered, the two live ones included. \<open>broadcast\<close> itself returns normally.
\<close>

theorem broadcast_quote_reaches_nobody:
  "fst (connect settings0 True True
          (fst (connect settings0 True True
                 (fst (connect settings0 True True WebSocketManager_init 1)) 2)) 3) = manager_live
   \<and> send_ok_not2 1 (stock_update_message (quote_AAPL 151))
   \<and> \<not> send_ok_not2 2 (stock_update_message (quote_AAPL 151))
   \<and> send_ok_not2 3 (stock_update_message (quote_AAPL 151))
   \<and> broadcast send_ok_not2 manager_live (stock_update_message (quote_AAPL 151))
     = (\<lparr>active_connections = [], redis_client = Some (REDIS_URL settings0)\<rparr>,
        [(1, Inl TypeError), (2, Inl TypeError), (3, Inl TypeError)])"
  by (simp add: connect_def WebSocketManager_init_def manager_live_def send_ok_not2_def
      broadcast_def send_text_json_def stock_update_not_serializable disconnect_def Let_def)

end
